theory Spec2Isabelle
  imports Main
begin

section \<open>The Result type of j-arens/result\<close>

text \<open>
  The TypeScript source (\<^verbatim>\<open>src/Result.ts\<close>, \<^verbatim>\<open>src/index.ts\<close>) defines a class
  \<^verbatim>\<open>Result<T, E>\<close> with two subclasses \<^verbatim>\<open>Ok<T>\<close> and \<^verbatim>\<open>Err<E>\<close>, and an error
  class \<^verbatim>\<open>ResultError\<close>. Instances are objects with an identity, methods allocate new
  instances, take callbacks and throw. The embedding makes all of this explicit:
  objects live in a store indexed by addresses, \<^verbatim>\<open>new\<close> allocates the next address,
  a thrown value is the \<open>Inl\<close> of a sum, and every callback invocation made by a method
  is appended to a trace.
\<close>

subsection \<open>Values, objects and the store\<close>

type_synonym addr = nat

text \<open>
  A JavaScript value as far as the payloads \<^verbatim>\<open>T\<close> and \<^verbatim>\<open>E\<close> are concerned:
  the Result type never inspects a payload. \<open>Ref\<close> is a reference to an object of the
  store, so a payload may itself be a Result.
\<close>

datatype val = Undefined | Num int | Str string | Bool bool | Ref addr

text \<open>The class an object was created with (\<^verbatim>\<open>new Result\<close>, \<^verbatim>\<open>new Ok\<close>, \<^verbatim>\<open>new Err\<close>).\<close>

datatype cls = Result_cls | Ok_cls | Err_cls

text \<open>An instance of \<^verbatim>\<open>Result\<close>: its class and the private fields \<^verbatim>\<open>_success\<close>, \<^verbatim>\<open>_error\<close>.\<close>

record obj =
  cls :: cls
  fld_success :: val
  fld_error :: val

text \<open>
  The store: the object at every address and the next address \<^verbatim>\<open>new\<close> hands out.
  Addresses below \<open>next_addr\<close> are the allocated ones.
\<close>

record store =
  objs :: "addr \<Rightarrow> obj"
  next_addr :: addr

subsection \<open>ResultError\<close>

text \<open>
  \<^verbatim>\<open>class ResultError extends Error { public name = 'ResultError'; ... }\<close>:
  an Error object carries a name and a message.
\<close>

record ResultError =
  name :: string
  message :: string

text \<open>\<^verbatim>\<open>new ResultError(msg)\<close>: the Error constructor stores the message, the field
  initialiser stores the name.\<close>

definition new_ResultError :: "string \<Rightarrow> ResultError" where
  "new_ResultError msg = \<lparr>name = ''ResultError'', message = msg\<rparr>"

definition ResultError_illegalInstantiation :: ResultError where
  "ResultError_illegalInstantiation =
     new_ResultError ''Result must be an instance of Ok or Err''"

text \<open>The second parameter of \<^verbatim>\<open>illegalCall\<close> has the literal type \<^verbatim>\<open>'Ok' | 'Err'\<close>.\<close>

datatype type_lit = Ok_lit | Err_lit

fun type_str :: "type_lit \<Rightarrow> string" where
  "type_str Ok_lit = ''Ok''"
| "type_str Err_lit = ''Err''"

definition ResultError_illegalCall :: "string \<Rightarrow> type_lit \<Rightarrow> ResultError" where
  "ResultError_illegalCall method type =
     new_ResultError (''cannot call '' @ method @ '' on a Result of type '' @ type_str type)"

text \<open>
  What a \<^verbatim>\<open>throw\<close> can carry: an instance of \<^verbatim>\<open>ResultError\<close>, or any other value
  (a callback may throw whatever it likes).
\<close>

datatype thrown = Thrown_ResultError ResultError | Thrown_other val

subsection \<open>Computations, callbacks and the trace\<close>

text \<open>
  A callback is a JavaScript function of one argument: it may read and change the
  store, and it returns or throws.
\<close>

type_synonym 'a callback = "val \<Rightarrow> store \<Rightarrow> (thrown + 'a) \<times> store"

text \<open>
  The state the callback-taking methods run in: the store, and the arguments of the
  callback invocations made so far, in order. A callback sees the store only, so the
  trace records what the methods do and nothing else can write to it.
\<close>

record state =
  heap :: store
  calls :: "val list"

text \<open>Sequencing: run \<open>m\<close>; if it throws, so does the whole; else continue with \<open>f\<close>.\<close>

definition seq :: "('s \<Rightarrow> (thrown + 'a) \<times> 's) \<Rightarrow> ('a \<Rightarrow> 's \<Rightarrow> (thrown + 'b) \<times> 's)
    \<Rightarrow> 's \<Rightarrow> (thrown + 'b) \<times> 's" where
  "seq m f s = (case m s of (Inl e, s') \<Rightarrow> (Inl e, s') | (Inr x, s') \<Rightarrow> f x s')"

text \<open>A computation on the store, run in a state: the trace is untouched.\<close>

definition lift :: "(store \<Rightarrow> 'r \<times> store) \<Rightarrow> state \<Rightarrow> 'r \<times> state" where
  "lift m s = (case m (heap s) of (r, h') \<Rightarrow> (r, s\<lparr>heap := h'\<rparr>))"

text \<open>The call \<^verbatim>\<open>op(x)\<close> made by a method: logged, then run.\<close>

definition invoke :: "'a callback \<Rightarrow> val \<Rightarrow> state \<Rightarrow> (thrown + 'a) \<times> state" where
  "invoke op x s =
     (case op x (heap s) of (r, h') \<Rightarrow> (r, \<lparr>heap = h', calls = calls s @ [x]\<rparr>))"

subsection \<open>The class Result\<close>

text \<open>\<^verbatim>\<open>isOk() { return this instanceof Ok; }\<close> and \<^verbatim>\<open>isErr()\<close>.\<close>

definition Result_isOk :: "addr \<Rightarrow> store \<Rightarrow> bool" where
  "Result_isOk this h = (cls (objs h this) = Ok_cls)"

definition Result_isErr :: "addr \<Rightarrow> store \<Rightarrow> bool" where
  "Result_isErr this h = (cls (objs h this) = Err_cls)"

text \<open>
  \<^verbatim>\<open>new C(...)\<close> first creates the object \<^verbatim>\<open>this\<close> of class \<open>C\<close>, its fields still
  undefined, at the next free address.
\<close>

definition alloc :: "cls \<Rightarrow> store \<Rightarrow> addr \<times> store" where
  "alloc c h =
     (next_addr h,
      h\<lparr>objs := (objs h)(next_addr h := \<lparr>cls = c, fld_success = Undefined, fld_error = Undefined\<rparr>),
        next_addr := Suc (next_addr h)\<rparr>)"

text \<open>
  The constructor of \<^verbatim>\<open>Result\<close>, run for an object of class \<open>c\<close>:
  \<^verbatim>\<open>
  public constructor(success: T, error: E) {
    if (!this.isOk() && !this.isErr()) {
      throw ResultError.illegalInstantiation();
    }
    this._success = success;
    this._error = error;
  }
  \<close>
\<close>

definition Result_constructor :: "cls \<Rightarrow> val \<Rightarrow> val \<Rightarrow> store \<Rightarrow> (thrown + addr) \<times> store" where
  "Result_constructor c success error h =
     (case alloc c h of (this, h1) \<Rightarrow>
        if \<not> Result_isOk this h1 \<and> \<not> Result_isErr this h1
        then (Inl (Thrown_ResultError ResultError_illegalInstantiation), h1)
        else (Inr this,
              h1\<lparr>objs := (objs h1)(this := (objs h1 this)\<lparr>fld_success := success, fld_error := error\<rparr>)\<rparr>))"

text \<open>\<^verbatim>\<open>new Result(success, error)\<close>, the base class constructed directly.\<close>

definition new_Result :: "val \<Rightarrow> val \<Rightarrow> store \<Rightarrow> (thrown + addr) \<times> store" where
  "new_Result success error = Result_constructor Result_cls success error"

text \<open>\<^verbatim>\<open>class Ok<T> extends Result<T, never> { constructor(success) { super(success, undefined as never); } }\<close>\<close>

definition new_Ok :: "val \<Rightarrow> store \<Rightarrow> (thrown + addr) \<times> store" where
  "new_Ok success = Result_constructor Ok_cls success Undefined"

text \<open>\<^verbatim>\<open>class Err<E> extends Result<never, E> { constructor(error) { super(undefined as never, error); } }\<close>\<close>

definition new_Err :: "val \<Rightarrow> store \<Rightarrow> (thrown + addr) \<times> store" where
  "new_Err error = Result_constructor Err_cls Undefined error"

text \<open>The factories of \<^verbatim>\<open>src/index.ts\<close>.\<close>

definition ok :: "val \<Rightarrow> store \<Rightarrow> (thrown + addr) \<times> store" where
  "ok success = new_Ok success"

definition err :: "val \<Rightarrow> store \<Rightarrow> (thrown + addr) \<times> store" where
  "err error = new_Err error"

text \<open>
  Modelled from the spec: the optional-value type \<^verbatim>\<open>Option\<close> with its constructors
  \<^verbatim>\<open>some\<close> and \<^verbatim>\<open>none\<close> comes from the package \<^verbatim>\<open>@j-arens/option\<close>, which is not
  part of the sources. The spec treats it as an opaque two-state container, populated
  or empty; \<open>Option_unwrap\<close> reads a populated one and has no value on an empty one.
\<close>

datatype Option = some val | none

fun Option_unwrap :: "Option \<Rightarrow> val option" where
  "Option_unwrap (some v) = Some v"
| "Option_unwrap none = None"

fun Option_isSome :: "Option \<Rightarrow> bool" where
  "Option_isSome (some v) = True"
| "Option_isSome none = False"

text \<open>The methods \<^verbatim>\<open>ok()\<close> and \<^verbatim>\<open>err()\<close> of \<^verbatim>\<open>Result\<close> (both test \<^verbatim>\<open>isOk\<close>).\<close>

definition Result_ok :: "addr \<Rightarrow> store \<Rightarrow> Option" where
  "Result_ok this h =
     (if Result_isOk this h then some (fld_success (objs h this)) else none)"

definition Result_err :: "addr \<Rightarrow> store \<Rightarrow> Option" where
  "Result_err this h =
     (if Result_isOk this h then none else some (fld_error (objs h this)))"

text \<open>\<^verbatim>\<open>and(res)\<close>: \<^verbatim>\<open>if (this.isOk()) { return res; } return new Err<E>(this._error);\<close>\<close>

definition Result_and :: "addr \<Rightarrow> addr \<Rightarrow> store \<Rightarrow> (thrown + addr) \<times> store" where
  "Result_and this res h =
     (if Result_isOk this h then (Inr res, h) else new_Err (fld_error (objs h this)) h)"

text \<open>\<^verbatim>\<open>andThen(op)\<close>: \<^verbatim>\<open>if (this.isOk()) { return op(this._success); } return new Err<E>(this._error);\<close>\<close>

definition Result_andThen :: "addr callback \<Rightarrow> addr \<Rightarrow> state \<Rightarrow> (thrown + addr) \<times> state" where
  "Result_andThen op this s =
     (if Result_isOk this (heap s) then invoke op (fld_success (objs (heap s) this)) s
      else lift (new_Err (fld_error (objs (heap s) this))) s)"

text \<open>\<^verbatim>\<open>expect(msg)\<close>: \<^verbatim>\<open>if (this.isOk()) { return this._success; } throw new ResultError(msg);\<close>\<close>

definition Result_expect :: "string \<Rightarrow> addr \<Rightarrow> store \<Rightarrow> (thrown + val) \<times> store" where
  "Result_expect msg this h =
     (if Result_isOk this h then (Inr (fld_success (objs h this)), h)
      else (Inl (Thrown_ResultError (new_ResultError msg)), h))"

text \<open>\<^verbatim>\<open>expectErr(msg)\<close>: \<^verbatim>\<open>if (this.isErr()) { return this._error; } throw new ResultError(msg);\<close>\<close>

definition Result_expectErr :: "string \<Rightarrow> addr \<Rightarrow> store \<Rightarrow> (thrown + val) \<times> store" where
  "Result_expectErr msg this h =
     (if Result_isErr this h then (Inr (fld_error (objs h this)), h)
      else (Inl (Thrown_ResultError (new_ResultError msg)), h))"

text \<open>\<^verbatim>\<open>map(op)\<close>: \<^verbatim>\<open>if (this.isOk()) { return new Ok<U>(op(this._success)); } return new Err<E>(this._error);\<close>\<close>

definition Result_map :: "val callback \<Rightarrow> addr \<Rightarrow> state \<Rightarrow> (thrown + addr) \<times> state" where
  "Result_map op this s =
     (if Result_isOk this (heap s)
      then seq (invoke op (fld_success (objs (heap s) this))) (\<lambda>u. lift (new_Ok u)) s
      else lift (new_Err (fld_error (objs (heap s) this))) s)"

text \<open>\<^verbatim>\<open>mapErr(op)\<close>: \<^verbatim>\<open>if (this.isOk()) { return new Ok<T>(this._success); } return new Err<F>(op(this._error));\<close>\<close>

definition Result_mapErr :: "val callback \<Rightarrow> addr \<Rightarrow> state \<Rightarrow> (thrown + addr) \<times> state" where
  "Result_mapErr op this s =
     (if Result_isOk this (heap s) then lift (new_Ok (fld_success (objs (heap s) this))) s
      else seq (invoke op (fld_error (objs (heap s) this))) (\<lambda>u. lift (new_Err u)) s)"

text \<open>\<^verbatim>\<open>or(res)\<close>: \<^verbatim>\<open>if (this.isOk()) { return new Ok<T>(this._success); } return res;\<close>\<close>

definition Result_or :: "addr \<Rightarrow> addr \<Rightarrow> store \<Rightarrow> (thrown + addr) \<times> store" where
  "Result_or this res h =
     (if Result_isOk this h then new_Ok (fld_success (objs h this)) h else (Inr res, h))"

text \<open>\<^verbatim>\<open>orElse(op)\<close>: \<^verbatim>\<open>if (this.isOk()) { return new Ok<T>(this._success); } return op(this._error);\<close>\<close>

definition Result_orElse :: "addr callback \<Rightarrow> addr \<Rightarrow> state \<Rightarrow> (thrown + addr) \<times> state" where
  "Result_orElse op this s =
     (if Result_isOk this (heap s) then lift (new_Ok (fld_success (objs (heap s) this))) s
      else invoke op (fld_error (objs (heap s) this)) s)"

text \<open>\<^verbatim>\<open>unwrap()\<close>: \<^verbatim>\<open>if (this.isOk()) { return this._success; } throw ResultError.illegalCall('unwrap', 'Err');\<close>\<close>

definition Result_unwrap :: "addr \<Rightarrow> store \<Rightarrow> (thrown + val) \<times> store" where
  "Result_unwrap this h =
     (if Result_isOk this h then (Inr (fld_success (objs h this)), h)
      else (Inl (Thrown_ResultError (ResultError_illegalCall ''unwrap'' Err_lit)), h))"

text \<open>\<^verbatim>\<open>unwrapErr()\<close>: \<^verbatim>\<open>if (this.isErr()) { return this._error; } throw ResultError.illegalCall('unwrapErr', 'Ok');\<close>\<close>

definition Result_unwrapErr :: "addr \<Rightarrow> store \<Rightarrow> (thrown + val) \<times> store" where
  "Result_unwrapErr this h =
     (if Result_isErr this h then (Inr (fld_error (objs h this)), h)
      else (Inl (Thrown_ResultError (ResultError_illegalCall ''unwrapErr'' Ok_lit)), h))"

text \<open>\<^verbatim>\<open>unwrapOr(optb)\<close>: \<^verbatim>\<open>if (this.isOk()) { return this._success; } return optb;\<close>\<close>

definition Result_unwrapOr :: "val \<Rightarrow> addr \<Rightarrow> store \<Rightarrow> val" where
  "Result_unwrapOr optb this h =
     (if Result_isOk this h then fld_success (objs h this) else optb)"

text \<open>\<^verbatim>\<open>unwrapOrElse(op)\<close>: \<^verbatim>\<open>if (this.isOk()) { return this._success; } return op(this._error);\<close>\<close>

definition Result_unwrapOrElse :: "val callback \<Rightarrow> addr \<Rightarrow> state \<Rightarrow> (thrown + val) \<times> state" where
  "Result_unwrapOrElse op this s =
     (if Result_isOk this (heap s) then (Inr (fld_success (objs (heap s) this)), s)
      else invoke op (fld_error (objs (heap s) this)) s)"

subsection \<open>Notions used in the statements\<close>

text \<open>
  A callback whose outcome depends on its argument alone and which leaves the store as
  it is, such as \<^verbatim>\<open>x => x\<close>; it may still throw.
\<close>

definition pure_fn :: "(val \<Rightarrow> thrown + 'a) \<Rightarrow> 'a callback" where
  "pure_fn f x h = (f x, h)"

text \<open>A callback that never throws: it returns a value and a new store.\<close>

definition nothrow :: "(val \<Rightarrow> store \<Rightarrow> 'a \<times> store) \<Rightarrow> 'a callback" where
  "nothrow f x h = (case f x h of (r, h') \<Rightarrow> (Inr r, h'))"

text \<open>
  What a caller can see of the outcome of a computation that returns a Result: the
  thrown value, or else the variant and the payload of the returned instance, read
  through \<^verbatim>\<open>isOk()\<close>, \<^verbatim>\<open>isErr()\<close>, \<^verbatim>\<open>ok()\<close> and \<^verbatim>\<open>err()\<close>.
\<close>

definition observe :: "(thrown + addr) \<times> state \<Rightarrow> thrown + bool \<times> bool \<times> Option \<times> Option" where
  "observe res =
     (case res of
        (Inl e, s) \<Rightarrow> Inl e
      | (Inr r, s) \<Rightarrow> Inr (Result_isOk r (heap s), Result_isErr r (heap s),
                          Result_ok r (heap s), Result_err r (heap s)))"

text \<open>A thrown value that is an instance of \<^verbatim>\<open>ResultError\<close> named \<^verbatim>\<open>'ResultError'\<close>.\<close>

fun is_ResultError :: "thrown \<Rightarrow> bool" where
  "is_ResultError (Thrown_ResultError e) = (name e = ''ResultError'')"
| "is_ResultError (Thrown_other v) = False"

text \<open>An outcome that is a return, or the throw of such a ResultError.\<close>

definition raises_only_ResultError :: "(thrown + 'a) \<times> 's \<Rightarrow> bool" where
  "raises_only_ResultError res = (case fst res of Inl e \<Rightarrow> is_ResultError e | Inr x \<Rightarrow> True)"

text \<open>
  A concrete store for the examples: nothing allocated, then \<^verbatim>\<open>ok(1)\<close> at address 0
  and \<^verbatim>\<open>err('boom')\<close> at address 1.
\<close>

definition empty_store :: store where
  "empty_store =
     \<lparr>objs = (\<lambda>a. \<lparr>cls = Result_cls, fld_success = Undefined, fld_error = Undefined\<rparr>),
      next_addr = 0\<rparr>"

definition example_store :: store where
  "example_store = snd (err (Str ''boom'') (snd (ok (Num 1) empty_store)))"

definition example_state :: state where
  "example_state = \<lparr>heap = example_store, calls = []\<rparr>"



text \<open>
  \<^verbatim>\<open>r.map(f).map(g)\<close> creates one instance more than \<^verbatim>\<open>r.map(x => g(f(x)))\<close>: the
  intermediate result, allocated between the runs of \<open>f\<close> and \<open>g\<close>. No JavaScript
  function can reach that instance, but a callback of the model is an arbitrary function
  of the store and could look at it. \<open>unobserved new g res\<close> says that it does not: where
  the first callback returned \<open>u\<close> in the store \<open>h1\<close>, \<open>g u\<close> returns or throws the same
  with and without the instance \<open>new u\<close> in the store. \<open>frame_map\<close> and \<open>frame_mapErr\<close>
  ask this where \<^verbatim>\<open>map\<close> and \<^verbatim>\<open>mapErr\<close> run their callback, and nothing elsewhere.
\<close>

definition unobserved :: "(val \<Rightarrow> store \<Rightarrow> (thrown + addr) \<times> store) \<Rightarrow> val callback
    \<Rightarrow> (thrown + val) \<times> store \<Rightarrow> bool" where
  "unobserved new g res =
     (case res of
        (Inl e, h1) \<Rightarrow> True
      | (Inr u, h1) \<Rightarrow> fst (g u (snd (new u h1))) = fst (g u h1))"

definition frame_map :: "val callback \<Rightarrow> val callback \<Rightarrow> addr \<Rightarrow> state \<Rightarrow> bool" where
  "frame_map f g this s =
     (if Result_isOk this (heap s)
      then unobserved new_Ok g (f (fld_success (objs (heap s) this)) (heap s))
      else True)"

definition frame_mapErr :: "val callback \<Rightarrow> val callback \<Rightarrow> addr \<Rightarrow> state \<Rightarrow> bool" where
  "frame_mapErr f g this s =
     (if Result_isOk this (heap s) then True
      else unobserved new_Err g (f (fld_error (objs (heap s) this)) (heap s)))"

section \<open>Properties\<close>

subsection \<open>What the constructors do\<close>

text \<open>
  \<^verbatim>\<open>new Ok(v)\<close> and \<^verbatim>\<open>new Err(e)\<close> return the next address and put a fully
  initialised object there; \<^verbatim>\<open>new Result(a, b)\<close> throws after the object was created.
\<close>

lemma new_Ok_eq:
  "new_Ok v h = (Inr (next_addr h),
     h\<lparr>objs := (objs h)(next_addr h := \<lparr>cls = Ok_cls, fld_success = v, fld_error = Undefined\<rparr>),
       next_addr := Suc (next_addr h)\<rparr>)"
  by (simp add: new_Ok_def Result_constructor_def alloc_def Result_isOk_def Result_isErr_def)

lemma new_Err_eq:
  "new_Err e h = (Inr (next_addr h),
     h\<lparr>objs := (objs h)(next_addr h := \<lparr>cls = Err_cls, fld_success = Undefined, fld_error = e\<rparr>),
       next_addr := Suc (next_addr h)\<rparr>)"
  by (simp add: new_Err_def Result_constructor_def alloc_def Result_isOk_def Result_isErr_def)

lemma new_Result_eq:
  "new_Result a b h = (Inl (Thrown_ResultError ResultError_illegalInstantiation),
     h\<lparr>objs := (objs h)(next_addr h := \<lparr>cls = Result_cls, fld_success = Undefined, fld_error = Undefined\<rparr>),
       next_addr := Suc (next_addr h)\<rparr>)"
  by (simp add: new_Result_def Result_constructor_def alloc_def Result_isOk_def Result_isErr_def)

lemma lift_new_Ok:
  "lift (new_Ok v) s = (Inr (next_addr (heap s)),
     s\<lparr>heap := (heap s)\<lparr>objs := (objs (heap s))(next_addr (heap s) :=
         \<lparr>cls = Ok_cls, fld_success = v, fld_error = Undefined\<rparr>),
       next_addr := Suc (next_addr (heap s))\<rparr>\<rparr>)"
  by (simp add: lift_def new_Ok_eq)

lemma lift_new_Err:
  "lift (new_Err e) s = (Inr (next_addr (heap s)),
     s\<lparr>heap := (heap s)\<lparr>objs := (objs (heap s))(next_addr (heap s) :=
         \<lparr>cls = Err_cls, fld_success = Undefined, fld_error = e\<rparr>),
       next_addr := Suc (next_addr (heap s))\<rparr>\<rparr>)"
  by (simp add: lift_def new_Err_eq)

lemma example_store_eq:
  "example_store =
     \<lparr>objs = (\<lambda>a. \<lparr>cls = Result_cls, fld_success = Undefined, fld_error = Undefined\<rparr>)
        (0 := \<lparr>cls = Ok_cls, fld_success = Num 1, fld_error = Undefined\<rparr>,
         Suc 0 := \<lparr>cls = Err_cls, fld_success = Undefined, fld_error = Str ''boom''\<rparr>),
      next_addr = Suc (Suc 0)\<rparr>"
  by (simp add: example_store_def empty_store_def ok_def err_def new_Ok_eq new_Err_eq)


subsection \<open>Unwrapping\<close>

text \<open>
  Claim C1. For every value \<open>v\<close> and every store, \<^verbatim>\<open>ok(v).unwrap()\<close> returns \<open>v\<close>, and
  for every error \<open>e\<close>, \<^verbatim>\<open>err(e).unwrapErr()\<close> returns \<open>e\<close>; the store after the call is
  the one the factory left.
\<close>

theorem unwrap_of_factory:
  "seq (ok v) Result_unwrap h = (Inr v, snd (ok v h))
   \<and> seq (err e) Result_unwrapErr h = (Inr e, snd (err e h))"
  by (simp add: seq_def ok_def err_def new_Ok_eq new_Err_eq Result_unwrap_def Result_unwrapErr_def
      Result_isOk_def Result_isErr_def)

text \<open>
  Claim C2. For every error \<open>e\<close>, \<^verbatim>\<open>err(e)\<close> returns an instance and \<^verbatim>\<open>unwrap()\<close> on
  it throws the ResultError built by \<^verbatim>\<open>illegalCall('unwrap', 'Err')\<close>, whose message is
  \<^verbatim>\<open>cannot call unwrap on a Result of type Err\<close> (\<^verbatim>\<open>Err\<close> is the source's name of the
  Failure variant). Symmetrically \<^verbatim>\<open>ok(v).unwrapErr()\<close> throws the error of
  \<^verbatim>\<open>illegalCall('unwrapErr', 'Ok')\<close>.
\<close>

theorem unwrap_wrong_variant:
  "fst (err e h) = Inr (next_addr h)
   \<and> seq (err e) Result_unwrap h =
       (Inl (Thrown_ResultError (ResultError_illegalCall ''unwrap'' Err_lit)), snd (err e h))
   \<and> ResultError_illegalCall ''unwrap'' Err_lit =
       \<lparr>name = ''ResultError'', message = ''cannot call unwrap on a Result of type Err''\<rparr>
   \<and> fst (ok v h) = Inr (next_addr h)
   \<and> seq (ok v) Result_unwrapErr h =
       (Inl (Thrown_ResultError (ResultError_illegalCall ''unwrapErr'' Ok_lit)), snd (ok v h))
   \<and> ResultError_illegalCall ''unwrapErr'' Ok_lit =
       \<lparr>name = ''ResultError'', message = ''cannot call unwrapErr on a Result of type Ok''\<rparr>"
  by (simp add: seq_def ok_def err_def new_Ok_eq new_Err_eq Result_unwrap_def Result_unwrapErr_def
      Result_isOk_def Result_isErr_def ResultError_illegalCall_def new_ResultError_def)

subsection \<open>Direct construction of the base class\<close>

text \<open>
  Claim C7. \<^verbatim>\<open>new Result(success, error)\<close> throws the ResultError of
  \<^verbatim>\<open>illegalInstantiation()\<close>, whatever the two arguments and the store are.
\<close>

theorem new_Result_throws:
  "fst (new_Result success error h) = Inl (Thrown_ResultError ResultError_illegalInstantiation)
   \<and> ResultError_illegalInstantiation =
       \<lparr>name = ''ResultError'', message = ''Result must be an instance of Ok or Err''\<rparr>"
  by (simp add: new_Result_eq ResultError_illegalInstantiation_def new_ResultError_def)

subsection \<open>Conversion to Option\<close>

text \<open>
  Claim C8. For the instance \<^verbatim>\<open>ok(v)\<close> returns, the method \<^verbatim>\<open>ok()\<close> gives the populated
  option \<open>some v\<close>, which unwraps to \<open>v\<close>, and \<^verbatim>\<open>err()\<close> gives \<open>none\<close>; for the instance
  \<^verbatim>\<open>err(e)\<close> returns, \<^verbatim>\<open>ok()\<close> gives \<open>none\<close> and \<^verbatim>\<open>err()\<close> gives \<open>some e\<close>.
\<close>

theorem option_conversions:
  "fst (ok v h) = Inr (next_addr h)
   \<and> Result_ok (next_addr h) (snd (ok v h)) = some v
   \<and> Option_isSome (Result_ok (next_addr h) (snd (ok v h)))
   \<and> Option_unwrap (Result_ok (next_addr h) (snd (ok v h))) = Some v
   \<and> Result_err (next_addr h) (snd (ok v h)) = none
   \<and> fst (err e h) = Inr (next_addr h)
   \<and> Result_ok (next_addr h) (snd (err e h)) = none
   \<and> Result_err (next_addr h) (snd (err e h)) = some e
   \<and> Option_isSome (Result_err (next_addr h) (snd (err e h)))
   \<and> Option_unwrap (Result_err (next_addr h) (snd (err e h))) = Some e"
  by (simp add: ok_def err_def new_Ok_eq new_Err_eq Result_ok_def Result_err_def Result_isOk_def)

subsection \<open>Chaining\<close>

text \<open>
  Claim C3. For every error \<open>e\<close> and callback \<open>fn\<close>, \<^verbatim>\<open>err(e).andThen(fn)\<close> makes no
  callback invocation (the trace is unchanged and the outcome is that of
  \<^verbatim>\<open>new Err(e)\<close>, whatever \<open>fn\<close> is) and returns a newly allocated instance that is an
  \<^verbatim>\<open>Err\<close> carrying \<open>e\<close>. For every value \<open>v\<close>, \<^verbatim>\<open>ok(v).andThen(fn)\<close> is exactly one
  invocation of \<open>fn\<close> with \<open>v\<close>: the trace grows by the single entry \<open>v\<close> and the call
  returns what \<open>fn\<close> returns.
\<close>

theorem andThen_short_circuit:
  "fst (lift (err e) s) = Inr (next_addr (heap s))
   \<and> seq (lift (err e)) (Result_andThen fn) s = seq (lift (err e)) (\<lambda>r. lift (new_Err e)) s
   \<and> fst (seq (lift (err e)) (Result_andThen fn) s) = Inr (Suc (next_addr (heap s)))
   \<and> calls (snd (seq (lift (err e)) (Result_andThen fn) s)) = calls s
   \<and> Result_isErr (Suc (next_addr (heap s)))
        (heap (snd (seq (lift (err e)) (Result_andThen fn) s)))
   \<and> Result_err (Suc (next_addr (heap s)))
        (heap (snd (seq (lift (err e)) (Result_andThen fn) s))) = some e
   \<and> fst (lift (ok v) s) = Inr (next_addr (heap s))
   \<and> seq (lift (ok v)) (Result_andThen fn) s = invoke fn v (snd (lift (ok v) s))
   \<and> calls (snd (seq (lift (ok v)) (Result_andThen fn) s)) = calls s @ [v]
   \<and> fst (seq (lift (ok v)) (Result_andThen fn) s) = fst (fn v (heap (snd (lift (ok v) s))))"
  by (simp add: seq_def ok_def err_def lift_new_Ok lift_new_Err Result_andThen_def
      Result_isOk_def Result_isErr_def Result_err_def invoke_def split: prod.splits)

text \<open>
  Claim C5. When the receiver is an \<^verbatim>\<open>Ok\<close>, \<^verbatim>\<open>and(other)\<close> returns the reference
  \<open>other\<close> itself and allocates nothing (the store is unchanged). On the instance
  \<^verbatim>\<open>err(e)\<close> returns, \<^verbatim>\<open>and(other)\<close> does what \<^verbatim>\<open>new Err(e)\<close> does, whatever \<open>other\<close>
  is: it returns the address that was free before the call, holding an \<^verbatim>\<open>Err\<close> that
  carries \<open>e\<close>.
\<close>

theorem and_returns_other:
  "(Result_isOk this h \<longrightarrow> Result_and this other h = (Inr other, h))
   \<and> fst (err e h) = Inr (next_addr h)
   \<and> seq (err e) (\<lambda>r. Result_and r other) h = seq (err e) (\<lambda>r. new_Err e) h
   \<and> fst (seq (err e) (\<lambda>r. Result_and r other) h) = Inr (next_addr (snd (err e h)))
   \<and> Result_isErr (next_addr (snd (err e h))) (snd (seq (err e) (\<lambda>r. Result_and r other) h))
   \<and> Result_err (next_addr (snd (err e h))) (snd (seq (err e) (\<lambda>r. Result_and r other) h))
       = some e"
  by (simp add: seq_def err_def new_Err_eq Result_and_def Result_isOk_def Result_isErr_def
      Result_err_def)

theorem and_returns_other_witness:
  "Result_isOk 0 example_store
   \<and> Result_and 0 (Suc 0) example_store = (Inr (Suc 0), example_store)"
proof -
  have a: "Result_isOk 0 example_store"
    by (simp add: example_store_eq Result_isOk_def)
  show ?thesis
    using and_returns_other [of 0 example_store "Suc 0"] a by simp
qed

subsection \<open>Expecting\<close>

text \<open>
  Claim C4. For every message \<open>m\<close> and every store: on an \<^verbatim>\<open>Ok\<close> receiver \<open>a\<close>,
  \<^verbatim>\<open>expect(m)\<close> returns the success payload and \<^verbatim>\<open>expectErr(m)\<close> throws; on an
  \<^verbatim>\<open>Err\<close> receiver \<open>b\<close>, \<^verbatim>\<open>expectErr(m)\<close> returns the error payload and \<^verbatim>\<open>expect(m)\<close>
  throws. Each receiver stands alone: nothing is asked of the rest of the store. What is
  thrown is an instance of \<^verbatim>\<open>ResultError\<close>, the one error class of the source, named
  \<^verbatim>\<open>'ResultError'\<close>, whose message is \<open>m\<close>. In particular \<^verbatim>\<open>ok(v).expect(m)\<close> returns
  \<open>v\<close>, \<^verbatim>\<open>err(e).expectErr(m)\<close> returns \<open>e\<close>, and \<^verbatim>\<open>ok(v).expectErr(m)\<close> and
  \<^verbatim>\<open>err(e).expect(m)\<close> throw that error.
\<close>

theorem expect_results:
  "(Result_isOk a h \<longrightarrow>
      Result_expect m a h = (Inr (fld_success (objs h a)), h)
      \<and> Result_expectErr m a h
          = (Inl (Thrown_ResultError \<lparr>name = ''ResultError'', message = m\<rparr>), h))
   \<and> (Result_isErr b h \<longrightarrow>
      Result_expectErr m b h = (Inr (fld_error (objs h b)), h)
      \<and> Result_expect m b h
          = (Inl (Thrown_ResultError \<lparr>name = ''ResultError'', message = m\<rparr>), h))
   \<and> fst (ok v h) = Inr (next_addr h)
   \<and> seq (ok v) (Result_expect m) h = (Inr v, snd (ok v h))
   \<and> seq (ok v) (Result_expectErr m) h
       = (Inl (Thrown_ResultError \<lparr>name = ''ResultError'', message = m\<rparr>), snd (ok v h))
   \<and> fst (err e h) = Inr (next_addr h)
   \<and> seq (err e) (Result_expectErr m) h = (Inr e, snd (err e h))
   \<and> seq (err e) (Result_expect m) h
       = (Inl (Thrown_ResultError \<lparr>name = ''ResultError'', message = m\<rparr>), snd (err e h))"
  by (simp add: Result_expect_def Result_expectErr_def Result_isOk_def Result_isErr_def
      new_ResultError_def seq_def ok_def err_def new_Ok_eq new_Err_eq)

theorem expect_results_witness:
  "Result_isOk 0 (snd (ok (Num 1) empty_store))
   \<and> Result_expect ''oops'' 0 (snd (ok (Num 1) empty_store))
       = (Inr (Num 1), snd (ok (Num 1) empty_store))
   \<and> Result_expectErr ''oops'' 0 (snd (ok (Num 1) empty_store))
       = (Inl (Thrown_ResultError \<lparr>name = ''ResultError'', message = ''oops''\<rparr>),
          snd (ok (Num 1) empty_store))
   \<and> Result_isErr (Suc 0) example_store
   \<and> Result_expectErr ''oops'' (Suc 0) example_store = (Inr (Str ''boom''), example_store)
   \<and> Result_expect ''oops'' (Suc 0) example_store
       = (Inl (Thrown_ResultError \<lparr>name = ''ResultError'', message = ''oops''\<rparr>), example_store)"
proof -
  have a: "Result_isOk 0 (snd (ok (Num 1) empty_store))"
    by (simp add: ok_def new_Ok_eq empty_store_def Result_isOk_def)
  have b: "Result_isErr (Suc 0) example_store"
    by (simp add: example_store_eq Result_isErr_def)
  have c: "fld_success (objs (snd (ok (Num 1) empty_store)) 0) = Num 1"
    by (simp add: ok_def new_Ok_eq empty_store_def)
  have d: "fld_error (objs example_store (Suc 0)) = Str ''boom''"
    by (simp add: example_store_eq)
  show ?thesis
    using expect_results [of 0 "snd (ok (Num 1) empty_store)" "''oops''"]
      expect_results [of _ example_store "''oops''" "Suc 0"] a b
    by (simp add: c d)
qed

subsection \<open>Mapping\<close>

text \<open>
  Claim C6. Let \<open>this\<close> be an allocated instance of \<^verbatim>\<open>Ok\<close> or \<^verbatim>\<open>Err\<close>. Then
  \<^verbatim>\<open>this.map(x => x)\<close> returns, and what it returns is the address that was free before
  the call, hence a reference different from \<open>this\<close>, for an \<^verbatim>\<open>Err\<close> as for an \<^verbatim>\<open>Ok\<close>.
  The new instance has the variant and the payload of the receiver (the same
  \<^verbatim>\<open>isOk()\<close>, \<^verbatim>\<open>isErr()\<close>, \<^verbatim>\<open>ok()\<close> and \<^verbatim>\<open>err()\<close>), and the receiver is unchanged.
\<close>

theorem map_identity:
  assumes "this < next_addr (heap s)"
    and "Result_isOk this (heap s) \<or> Result_isErr this (heap s)"
  shows "case Result_map (pure_fn (\<lambda>x. Inr x)) this s of
      (Inl e, s') \<Rightarrow> False
    | (Inr r, s') \<Rightarrow>
        r = next_addr (heap s) \<and> r \<noteq> this
        \<and> Result_isOk r (heap s') = Result_isOk this (heap s)
        \<and> Result_isErr r (heap s') = Result_isErr this (heap s)
        \<and> Result_ok r (heap s') = Result_ok this (heap s)
        \<and> Result_err r (heap s') = Result_err this (heap s)
        \<and> objs (heap s') this = objs (heap s) this"
proof (cases "Result_isOk this (heap s)")
  case True
  then show ?thesis
    using assms(1)
    by (simp add: Result_map_def seq_def invoke_def pure_fn_def lift_def new_Ok_eq
        Result_isOk_def Result_isErr_def Result_ok_def Result_err_def)
next
  case False
  with assms(2) have "Result_isErr this (heap s)" by simp
  with False show ?thesis
    using assms(1)
    by (simp add: Result_map_def lift_def new_Err_eq
        Result_isOk_def Result_isErr_def Result_ok_def Result_err_def)
qed

theorem map_identity_witness:
  "Suc 0 < next_addr (heap example_state)
   \<and> (Result_isOk (Suc 0) (heap example_state) \<or> Result_isErr (Suc 0) (heap example_state))
   \<and> (case Result_map (pure_fn (\<lambda>x. Inr x)) (Suc 0) example_state of
        (Inl e, s') \<Rightarrow> False
      | (Inr r, s') \<Rightarrow> r = Suc (Suc 0) \<and> r \<noteq> Suc 0
          \<and> Result_isErr r (heap s') \<and> Result_err r (heap s') = some (Str ''boom''))"
proof -
  have a: "Suc 0 < next_addr (heap example_state)"
    by (simp add: example_state_def example_store_eq)
  have b: "Result_isErr (Suc 0) (heap example_state)"
    by (simp add: example_state_def example_store_eq Result_isErr_def)
  have c: "Result_err (Suc 0) (heap example_state) = some (Str ''boom'')"
    by (simp add: example_state_def example_store_eq Result_err_def Result_isOk_def)
  have n: "next_addr (heap example_state) = Suc (Suc 0)"
    by (simp add: example_state_def example_store_eq)
  from b have d:
    "Result_isOk (Suc 0) (heap example_state) \<or> Result_isErr (Suc 0) (heap example_state)"
    by simp
  show ?thesis
    using map_identity [OF a d] a b c n
    by (auto split: prod.splits sum.splits)
qed

text \<open>
  The condition holds of every callback that computes from its argument alone, and it is
  exactly what the composition law needs: in the model the law holds if and only if the
  second callback does not observe the intermediate instance.
\<close>

lemma frame_map_pure_fn: "frame_map f (pure_fn g) this s"
  by (simp add: frame_map_def unobserved_def pure_fn_def split: prod.splits sum.splits)

lemma frame_mapErr_pure_fn: "frame_mapErr f (pure_fn g) this s"
  by (simp add: frame_mapErr_def unobserved_def pure_fn_def split: prod.splits sum.splits)

lemma map_law_iff:
  "(observe (seq (Result_map f this) (Result_map g) s)
     = observe (Result_map (\<lambda>x. seq (f x) g) this s)) = frame_map f g this s"
  by (auto simp add: frame_map_def unobserved_def observe_def Result_map_def seq_def invoke_def
      lift_def new_Ok_eq new_Err_eq Result_isOk_def Result_isErr_def Result_ok_def Result_err_def
      split: prod.splits sum.splits)

lemma mapErr_law_iff:
  "(observe (seq (Result_mapErr f this) (Result_mapErr g) s)
     = observe (Result_mapErr (\<lambda>x. seq (f x) g) this s)) = frame_mapErr f g this s"
  by (auto simp add: frame_mapErr_def unobserved_def observe_def Result_mapErr_def seq_def invoke_def
      lift_def new_Ok_eq new_Err_eq Result_isOk_def Result_isErr_def Result_ok_def Result_err_def
      split: prod.splits sum.splits)



subsection \<open>The error class\<close>

text \<open>
  Claim C9. Every ResultError has the name \<^verbatim>\<open>'ResultError'\<close>, the one of
  \<^verbatim>\<open>illegalInstantiation()\<close> and those of \<^verbatim>\<open>illegalCall(method, type)\<close> included. The
  two kinds never have the same message, and a ResultError has no field besides name and
  message, so an error of either kind is told from any other ResultError by its message
  alone. Every method and constructor of the source either returns or throws such a
  ResultError, as long as a callback it is given does not throw itself.
\<close>

theorem single_error_class:
  "name (new_ResultError msg) = ''ResultError''
   \<and> name ResultError_illegalInstantiation = ''ResultError''
   \<and> name (ResultError_illegalCall method type) = ''ResultError''
   \<and> message ResultError_illegalInstantiation \<noteq> message (ResultError_illegalCall method type)
   \<and> ((e1 :: ResultError) = e2) = (name e1 = name e2 \<and> message e1 = message e2)
   \<and> (ResultError_illegalCall method type = new_ResultError msg)
       = (message (ResultError_illegalCall method type) = msg)
   \<and> (ResultError_illegalInstantiation = new_ResultError msg)
       = (message ResultError_illegalInstantiation = msg)
   \<and> raises_only_ResultError (new_Result a b h)
   \<and> raises_only_ResultError (new_Ok a h)
   \<and> raises_only_ResultError (new_Err a h)
   \<and> raises_only_ResultError (Result_and this res h)
   \<and> raises_only_ResultError (Result_or this res h)
   \<and> raises_only_ResultError (Result_expect msg this h)
   \<and> raises_only_ResultError (Result_expectErr msg this h)
   \<and> raises_only_ResultError (Result_unwrap this h)
   \<and> raises_only_ResultError (Result_unwrapErr this h)
   \<and> raises_only_ResultError (Result_andThen (nothrow f) this s)
   \<and> raises_only_ResultError (Result_orElse (nothrow f) this s)
   \<and> raises_only_ResultError (Result_map (nothrow g) this s)
   \<and> raises_only_ResultError (Result_mapErr (nothrow g) this s)
   \<and> raises_only_ResultError (Result_unwrapOrElse (nothrow g) this s)"
  by (auto simp add: raises_only_ResultError_def new_ResultError_def
      ResultError_illegalInstantiation_def ResultError_illegalCall_def
      new_Result_eq new_Ok_eq new_Err_eq Result_and_def Result_or_def
      Result_expect_def Result_expectErr_def Result_unwrap_def Result_unwrapErr_def
      Result_andThen_def Result_orElse_def Result_map_def Result_mapErr_def
      Result_unwrapOrElse_def nothrow_def invoke_def lift_def seq_def split: prod.splits)

end
